theory Spec2Isabelle
  imports Main "HOL-Library.Multiset"
begin

section \<open>The template tags of django_comments_xtd\<close>

text \<open>
  A shallow embedding of \<^verbatim>\<open>django_comments_xtd/templatetags/comments_xtd.py\<close>: the three
  tag parsers \<^verbatim>\<open>get_xtdcomment_count\<close>, \<^verbatim>\<open>render_last_xtdcomments\<close> and
  \<^verbatim>\<open>get_last_xtdcomments\<close>, the helper \<^verbatim>\<open>_get_content_types\<close> and the three node
  classes with their \<^verbatim>\<open>render\<close> methods. Exceptions are values of the type \<open>error\<close>; a
  function that can raise returns \<open>error + 'a\<close> with \<open>Inl\<close> for the exception.
\<close>

subsection \<open>Exceptions\<close>

datatype error =
    NameError string
  | IndexError
  | ValueError
  | AssertionError
  | DoesNotExist
  | MultipleObjectsReturned
  | TemplateSyntaxError string
  | TemplateDoesNotExist
  | DatabaseError

subsection \<open>Python built-ins used by the module\<close>

text \<open>
  \<^verbatim>\<open>str.split()\<close> without argument: the string is cut at runs of whitespace and no empty
  piece is produced. A \<open>char\<close> is a code point below 256; the whitespace characters among
  them are those of Python's \<^verbatim>\<open>str.isspace\<close>: tab, line feed, vertical tab, form feed,
  carriage return (0x09 to 0x0D), the four separators 0x1C to 0x1F, the space 0x20, the
  next-line control 0x85 and the no-break space 0xA0.
\<close>

definition isspace :: "char \<Rightarrow> bool" where
  "isspace c =
     (c \<in> {CHR 0x09, CHR 0x0A, CHR 0x0B, CHR 0x0C, CHR 0x0D, CHR 0x1C, CHR 0x1D, CHR 0x1E,
            CHR 0x1F, CHR 0x20, CHR 0x85, CHR 0xA0})"

fun split_ws :: "string \<Rightarrow> string \<Rightarrow> string list" where
  "split_ws cur [] = (if cur = [] then [] else [cur])"
| "split_ws cur (c # cs) =
     (if isspace c then (if cur = [] then split_ws [] cs else cur # split_ws [] cs)
      else split_ws (cur @ [c]) cs)"

definition py_split :: "string \<Rightarrow> string list" where
  "py_split s = split_ws [] s"

text \<open>
  \<^verbatim>\<open>str.split(sep)\<close> with a one-character separator: every occurrence of the separator
  cuts, and empty pieces are kept, so the result has one more piece than there are separators.
\<close>

fun split_sep :: "char \<Rightarrow> string \<Rightarrow> string \<Rightarrow> string list" where
  "split_sep sep cur [] = [cur]"
| "split_sep sep cur (c # cs) =
     (if c = sep then cur # split_sep sep [] cs else split_sep sep (cur @ [c]) cs)"

definition py_split_on :: "char \<Rightarrow> string \<Rightarrow> string list" where
  "py_split_on sep s = split_sep sep [] s"

text \<open>
  \<^verbatim>\<open>int(s)\<close> on a token (which holds no whitespace), as Python 3 converts a string in
  base 10: an optional sign, then decimal digits, where a single underscore may stand between
  two digits; anything else raises \<^verbatim>\<open>ValueError\<close>, and so does a string of more digits
  than the interpreter's limit for the conversion (4300 by default). Among the code points
  below 256 the decimal digits are the ASCII ones. Python's integers are unbounded, so the
  value is an \<open>int\<close>.
\<close>

definition isdigit :: "char \<Rightarrow> bool" where
  "isdigit c = (c \<in> set ''0123456789'')"

fun digits_with_underscores :: "string \<Rightarrow> bool" where
  "digits_with_underscores [] = False"
| "digits_with_underscores [c] = isdigit c"
| "digits_with_underscores (c # d # cs) =
     (isdigit c \<and>
      (if d = CHR ''_'' then digits_with_underscores cs else digits_with_underscores (d # cs)))"

fun digits_value :: "int \<Rightarrow> string \<Rightarrow> int" where
  "digits_value acc [] = acc"
| "digits_value acc (c # cs) = digits_value (10 * acc + (int (of_char c) - 48)) cs"

definition int_max_str_digits :: nat where
  "int_max_str_digits = 4300"

definition py_int :: "string \<Rightarrow> error + int" where
  "py_int s =
     (let negative = (s \<noteq> [] \<and> hd s = CHR ''-'');
          body = (if s \<noteq> [] \<and> (hd s = CHR ''+'' \<or> hd s = CHR ''-'') then tl s else s);
          digits = filter isdigit body
      in if \<not> digits_with_underscores body \<or> int_max_str_digits < length digits
         then Inl ValueError
         else Inr (if negative then - digits_value 0 digits else digits_value 0 digits))"

text \<open>
  \<^verbatim>\<open>xs[i]\<close> for a constant index \<open>i \<ge> 0\<close>: \<^verbatim>\<open>IndexError\<close> out of range. The slice
  \<^verbatim>\<open>xs[i:]\<close> never raises and is \<open>drop i xs\<close>.
\<close>

definition getitem :: "'a list \<Rightarrow> nat \<Rightarrow> error + 'a" where
  "getitem xs i = (if i < length xs then Inr (xs ! i) else Inl IndexError)"

text \<open>
  The \<^verbatim>\<open>%r\<close> conversion of a string without quotes, backslashes or control characters
  (every tag name is one): the string between single quotes.
\<close>

definition quoted :: "string \<Rightarrow> string" where
  "quoted s = CHR 0x27 # s @ [CHR 0x27]"

definition py_repr :: "string \<Rightarrow> string" where
  "py_repr s = quoted s"

subsection \<open>The names the module binds\<close>

text \<open>
  The module's global namespace after its imports and definitions, each name with a printable
  form of the object it is bound to. The import line is
  \<^verbatim>\<open>from django.template import (Library, Node, Template, TemplateSyntaxError, Variable,
  loader, RequestContext)\<close>: it binds \<^verbatim>\<open>Template\<close> and \<^verbatim>\<open>TemplateSyntaxError\<close>, and
  no name \<^verbatim>\<open>template\<close>. Reading a name that is neither local nor global (nor a built-in)
  raises \<^verbatim>\<open>NameError\<close>.
\<close>

definition module_globals :: "(string \<times> string) list" where
  "module_globals =
     [(''ContentType'', ''<class ContentType>''),
      (''Library'', ''<class Library>''),
      (''Node'', ''<class Node>''),
      (''Template'', ''<class Template>''),
      (''TemplateSyntaxError'', ''<class TemplateSyntaxError>''),
      (''Variable'', ''<class Variable>''),
      (''loader'', ''<module django.template.loader>''),
      (''RequestContext'', ''<class RequestContext>''),
      (''XtdComment'', ''<class XtdComment>''),
      (''register'', ''<Library object>''),
      (''XtdCommentCountNode'', ''<class XtdCommentCountNode>''),
      (''get_xtdcomment_count'', ''<function get_xtdcomment_count>''),
      (''BaseLastXtdCommentsNode'', ''<class BaseLastXtdCommentsNode>''),
      (''RenderLastXtdCommentsNode'', ''<class RenderLastXtdCommentsNode>''),
      (''GetLastXtdCommentsNode'', ''<class GetLastXtdCommentsNode>''),
      (''_get_content_types'', ''<function _get_content_types>''),
      (''render_last_xtdcomments'', ''<function render_last_xtdcomments>''),
      (''get_last_xtdcomments'', ''<function get_last_xtdcomments>'')]"

definition load_global :: "string \<Rightarrow> error + string" where
  "load_global name =
     (case map_of module_globals name of None \<Rightarrow> Inl (NameError name) | Some v \<Rightarrow> Inr v)"

text \<open>
  The statement \<^verbatim>\<open>raise template.TemplateSyntaxError(msg)\<close>: Python evaluates the callee
  \<^verbatim>\<open>template.TemplateSyntaxError\<close> before the argument, so the global \<^verbatim>\<open>template\<close>
  is read first. The result is the exception that leaves the statement.
\<close>

definition raise_template_TemplateSyntaxError :: "(error + string) \<Rightarrow> error" where
  "raise_template_TemplateSyntaxError msg =
     (case load_global ''template'' of
        Inl e \<Rightarrow> e
      | Inr _ \<Rightarrow> (case msg of Inl e \<Rightarrow> e | Inr m \<Rightarrow> TemplateSyntaxError m))"

subsection \<open>Content types and their registry\<close>

text \<open>
  A row of the framework's content-type table, and \<^verbatim>\<open>ContentType.objects.get(app_label=app,
  model=model)\<close> over the table: no matching row raises \<^verbatim>\<open>DoesNotExist\<close>, several raise
  \<^verbatim>\<open>MultipleObjectsReturned\<close>.
\<close>

record content_type =
  app_label :: string
  model :: string

definition ContentType_objects_get ::
  "content_type list \<Rightarrow> string \<Rightarrow> string \<Rightarrow> error + content_type" where
  "ContentType_objects_get registry app mdl =
     (case filter (\<lambda>ct. app_label ct = app \<and> model ct = mdl) registry of
        [] \<Rightarrow> Inl DoesNotExist
      | [ct] \<Rightarrow> Inr ct
      | _ \<Rightarrow> Inl MultipleObjectsReturned)"

subsection \<open>\<^verbatim>\<open>_get_content_types\<close>\<close>

text \<open>
  The two messages of \<^verbatim>\<open>_get_content_types\<close>. Both read the name \<^verbatim>\<open>tagname\<close>, which
  is neither a parameter nor a local of the function.
\<close>

definition format_error_message :: "string \<Rightarrow> error + string" where
  "format_error_message token =
     (case load_global ''tagname'' of
        Inl e \<Rightarrow> Inl e
      | Inr tagname \<Rightarrow>
          Inr (''Argument '' @ token @ '' in '' @ tagname
                 @ '' must be in the format '' @ quoted ''app.model''))"

definition nonexistent_message :: "string \<Rightarrow> string \<Rightarrow> error + string" where
  "nonexistent_message app mdl =
     (case load_global ''tagname'' of
        Inl e \<Rightarrow> Inl e
      | Inr tagname \<Rightarrow>
          Inr (tagname @ '' tag has non-existant content-type: '' @ quoted (app @ ''.'' @ mdl)))"

text \<open>
  The loop of \<^verbatim>\<open>_get_content_types\<close>, with the list \<^verbatim>\<open>content_types\<close> built so far as
  an accumulator. The unpacking \<^verbatim>\<open>app, model = token.split('.')\<close> raises \<^verbatim>\<open>ValueError\<close>
  unless the split has exactly two pieces; the handlers catch \<^verbatim>\<open>ValueError\<close> and
  \<^verbatim>\<open>DoesNotExist\<close> only, every other exception leaves the function as it is.
\<close>

fun get_content_types_loop ::
  "content_type list \<Rightarrow> content_type list \<Rightarrow> string list \<Rightarrow> error + content_type list" where
  "get_content_types_loop registry content_types [] = Inr content_types"
| "get_content_types_loop registry content_types (token # tokens) =
     (case py_split_on CHR ''.'' token of
        [app, mdl] \<Rightarrow>
          (case ContentType_objects_get registry app mdl of
             Inr ct \<Rightarrow> get_content_types_loop registry (content_types @ [ct]) tokens
           | Inl ValueError \<Rightarrow>
               Inl (raise_template_TemplateSyntaxError (format_error_message token))
           | Inl DoesNotExist \<Rightarrow>
               Inl (raise_template_TemplateSyntaxError (nonexistent_message app mdl))
           | Inl e \<Rightarrow> Inl e)
      | _ \<Rightarrow> Inl (raise_template_TemplateSyntaxError (format_error_message token)))"

definition get_content_types :: "content_type list \<Rightarrow> string list \<Rightarrow> error + content_type list" where
  "get_content_types registry tokens = get_content_types_loop registry [] tokens"

subsection \<open>Comments and querysets\<close>

text \<open>
  A row of the comment table: the content type the comment is attached to, its free text and
  its ordering timestamp. The table is the list of its rows.
\<close>

record xtd_comment =
  content_type :: content_type
  comment :: string
  submit_date :: int

text \<open>
  A queryset object is a lazy description of a query together with a cache of its rows
  (\<^verbatim>\<open>_result_cache\<close>). The description records the content types of the filter and the
  upper bound of a slice, and does not change once the object is built. The cache is the
  mutable state of the object: it is empty until the object is iterated for the first time,
  holds the rows fetched then, and every later iteration yields these rows without reading
  the table. Each node builds one queryset object in \<^verbatim>\<open>__init__\<close> and keeps it in
  \<^verbatim>\<open>self.qs\<close>; the cache of that object is passed to the functions that use it and
  returned by them.
\<close>

record queryset =
  qs_content_types :: "content_type list"
  qs_stop :: "nat option"

type_synonym result_cache = "xtd_comment list option"

text \<open>
  Modelled from the spec: \<^verbatim>\<open>XtdComment.objects.for_content_types\<close>, the manager method of
  \<^verbatim>\<open>django_comments_xtd.models\<close>, is not part of the source at hand. The spec has the tags
  "count comments attached to content objects, fetch the most recent comments" along the flow
  "build queryset, filter by content type": the queryset selects the comments whose content
  type is among the given ones, the most recent first.
\<close>

definition for_content_types :: "content_type list \<Rightarrow> queryset" where
  "for_content_types content_types = \<lparr>qs_content_types = content_types, qs_stop = None\<rparr>"

text \<open>
  The slice \<^verbatim>\<open>qs[:count]\<close> of the framework's querysets: a negative bound is refused
  with an assertion ("Negative indexing is not supported."), a bound on a queryset that is
  sliced already keeps the smaller one.
\<close>

definition qs_slice_to :: "queryset \<Rightarrow> int \<Rightarrow> error + queryset" where
  "qs_slice_to q cnt =
     (if cnt < 0 then Inl AssertionError
      else Inr (q\<lparr>qs_stop := (case qs_stop q of None \<Rightarrow> Some (nat cnt)
                                | Some k \<Rightarrow> Some (min k (nat cnt)))\<rparr>))"

text \<open>
  Modelled from the spec: the rows that a query for a queryset of \<^verbatim>\<open>for_content_types\<close>
  selects from the table (see above): filtered by content type, ordered by timestamp with the
  most recent first, cut at the slice bound.
\<close>

definition select_rows :: "xtd_comment list \<Rightarrow> queryset \<Rightarrow> xtd_comment list" where
  "select_rows table q =
     (let rows = sort_key (\<lambda>c. - submit_date c)
                   (filter (\<lambda>c. content_type c \<in> set (qs_content_types q)) table)
      in case qs_stop q of None \<Rightarrow> rows | Some k \<Rightarrow> take k rows)"

text \<open>
  Running the query: the slice bound becomes the \<^verbatim>\<open>LIMIT\<close> of the statement, and the
  database refuses a limit beyond its 64-bit integers, the largest of which is
  \<open>2 ^ 63 - 1\<close> (the kind of the exception depends on the database).
\<close>

definition db_max_limit :: int where
  "db_max_limit = 9223372036854775807"

definition run_query :: "xtd_comment list \<Rightarrow> queryset \<Rightarrow> error + xtd_comment list" where
  "run_query table q =
     (case qs_stop q of
        None \<Rightarrow> Inr (select_rows table q)
      | Some k \<Rightarrow>
          if db_max_limit < int k then Inl DatabaseError else Inr (select_rows table q))"

text \<open>
  Iterating a queryset object: with an empty cache the query runs and its rows fill the cache
  (nothing is cached when the query fails); with a filled cache the cached rows are yielded.
\<close>

definition QuerySet_iter ::
  "xtd_comment list \<Rightarrow> queryset \<Rightarrow> result_cache
     \<Rightarrow> result_cache \<times> (error + xtd_comment list)" where
  "QuerySet_iter table q cache =
     (case cache of
        Some rows \<Rightarrow> (Some rows, Inr rows)
      | None \<Rightarrow>
          (case run_query table q of
             Inl e \<Rightarrow> (None, Inl e)
           | Inr rows \<Rightarrow> (Some rows, Inr rows)))"

text \<open>
  \<^verbatim>\<open>count()\<close>: the length of the cached rows when the cache is filled; otherwise the number
  of rows of the filter, to which the framework applies the slice bound itself. The cache is
  left as it is.
\<close>

definition QuerySet_count :: "xtd_comment list \<Rightarrow> queryset \<Rightarrow> result_cache \<Rightarrow> int" where
  "QuerySet_count table q cache =
     (case cache of
        Some rows \<Rightarrow> int (length rows)
      | None \<Rightarrow> int (length (select_rows table q)))"

subsection \<open>The template context\<close>

text \<open>
  The values a context variable holds here (\<open>PyQuerySet\<close> stands for a reference to a
  queryset object: its rows are read with \<open>QuerySet_iter\<close> and the cache of that object), and
  the framework's context: a stack of
  dictionaries that is never empty, the innermost first. \<^verbatim>\<open>context[key] = value\<close> writes
  into the innermost dictionary; \<^verbatim>\<open>context[key]\<close> reads the innermost dictionary that has
  the key; \<^verbatim>\<open>context.dicts\<close> is the stack itself.
\<close>

datatype pyval =
    PyInt int
  | PyStr string
  | PyComment xtd_comment
  | PyQuerySet queryset

type_synonym dict = "string \<rightharpoonup> pyval"

datatype Context = Context dict "dict list"

fun Context_setitem :: "Context \<Rightarrow> string \<Rightarrow> pyval \<Rightarrow> Context" where
  "Context_setitem (Context d ds) key v = Context (d(key \<mapsto> v)) ds"

fun lookup_dicts :: "dict list \<Rightarrow> string \<Rightarrow> pyval option" where
  "lookup_dicts [] key = None"
| "lookup_dicts (d # ds) key = (case d key of Some v \<Rightarrow> Some v | None \<Rightarrow> lookup_dicts ds key)"

fun Context_dicts :: "Context \<Rightarrow> dict list" where
  "Context_dicts (Context d ds) = d # ds"

fun Context_getitem :: "Context \<Rightarrow> string \<Rightarrow> pyval option" where
  "Context_getitem (Context d ds) key = lookup_dicts (d # ds) key"

subsection \<open>The node classes\<close>

text \<open>
  One constructor per concrete node class, with the attributes the class sets. The functions
  \<open>new_\<dots>\<close> are the \<^verbatim>\<open>__init__\<close> methods; those of the two classes derived from
  \<^verbatim>\<open>BaseLastXtdCommentsNode\<close> slice the queryset and so can raise. The queryset object of
  a new node has an empty row cache.
\<close>

datatype node =
    XtdCommentCountNode string queryset
  | RenderLastXtdCommentsNode queryset
  | GetLastXtdCommentsNode string queryset

definition new_XtdCommentCountNode :: "string \<Rightarrow> content_type list \<Rightarrow> node" where
  "new_XtdCommentCountNode as_varname content_types =
     XtdCommentCountNode as_varname (for_content_types content_types)"

definition new_BaseLastXtdCommentsNode :: "int \<Rightarrow> content_type list \<Rightarrow> error + queryset" where
  "new_BaseLastXtdCommentsNode cnt content_types =
     qs_slice_to (for_content_types content_types) cnt"

definition new_RenderLastXtdCommentsNode :: "int \<Rightarrow> content_type list \<Rightarrow> error + node" where
  "new_RenderLastXtdCommentsNode cnt content_types =
     (case new_BaseLastXtdCommentsNode cnt content_types of
        Inl e \<Rightarrow> Inl e
      | Inr qs \<Rightarrow> Inr (RenderLastXtdCommentsNode qs))"

definition new_GetLastXtdCommentsNode ::
  "int \<Rightarrow> string \<Rightarrow> content_type list \<Rightarrow> error + node" where
  "new_GetLastXtdCommentsNode cnt as_varname content_types =
     (case new_BaseLastXtdCommentsNode cnt content_types of
        Inl e \<Rightarrow> Inl e
      | Inr qs \<Rightarrow> Inr (GetLastXtdCommentsNode as_varname qs))"

text \<open>
  The template loader's \<^verbatim>\<open>render_to_string(names, dictionary, context)\<close> belongs to the
  framework and is a parameter: it returns the rendered text or raises.
\<close>

type_synonym loader = "string list \<Rightarrow> dict \<Rightarrow> Context \<Rightarrow> error + string"

definition template_search_list :: "xtd_comment \<Rightarrow> string list" where
  "template_search_list xtd_comment =
     [''django_comments_xtd/'' @ app_label (content_type xtd_comment) @ ''/''
        @ model (content_type xtd_comment) @ ''/comment.html'',
      ''django_comments_xtd/'' @ app_label (content_type xtd_comment) @ ''/comment.html'',
      ''django_comments_xtd/comment.html'']"

text \<open>The dictionary \<^verbatim>\<open>{"comment": xtd_comment}\<close> handed to the loader.\<close>

definition comment_dictionary :: "xtd_comment \<Rightarrow> dict" where
  "comment_dictionary xtd_comment = [''comment'' \<mapsto> PyComment xtd_comment]"

text \<open>The loop of \<^verbatim>\<open>RenderLastXtdCommentsNode.render\<close>, with \<^verbatim>\<open>strlist\<close> as accumulator.\<close>

fun render_loop ::
  "loader \<Rightarrow> Context \<Rightarrow> string list \<Rightarrow> xtd_comment list \<Rightarrow> error + string list" where
  "render_loop render_to_string context strlist [] = Inr strlist"
| "render_loop render_to_string context strlist (xtd_comment # rest) =
     (case render_to_string (template_search_list xtd_comment)
             (comment_dictionary xtd_comment) context of
        Inl e \<Rightarrow> Inl e
      | Inr s \<Rightarrow> render_loop render_to_string context (strlist @ [s]) rest)"

text \<open>
  \<^verbatim>\<open>render\<close>, by the class of the node. It takes the comment table and the loader of the
  moment of rendering and the row cache of \<^verbatim>\<open>self.qs\<close>, and returns the row cache after
  the call together with the outcome: an exception, or the context after the call with the
  returned string. \<^verbatim>\<open>GetLastXtdCommentsNode.render\<close> stores \<^verbatim>\<open>self.qs\<close> itself in the
  context, so the variable and the node share one queryset object and one row cache.
\<close>

fun render ::
  "xtd_comment list \<Rightarrow> loader \<Rightarrow> node \<Rightarrow> result_cache \<Rightarrow> Context
     \<Rightarrow> result_cache \<times> (error + (Context \<times> string))" where
  "render table render_to_string (XtdCommentCountNode as_varname qs) cache context =
     (cache,
      Inr (Context_setitem context as_varname (PyInt (QuerySet_count table qs cache)), []))"
| "render table render_to_string (RenderLastXtdCommentsNode qs) cache context =
     (case QuerySet_iter table qs cache of
        (cache', Inl e) \<Rightarrow> (cache', Inl e)
      | (cache', Inr rows) \<Rightarrow>
          (case render_loop render_to_string context [] rows of
             Inl e \<Rightarrow> (cache', Inl e)
           | Inr strlist \<Rightarrow> (cache', Inr (context, concat strlist))))"
| "render table render_to_string (GetLastXtdCommentsNode as_varname qs) cache context =
     (cache, Inr (Context_setitem context as_varname (PyQuerySet qs), []))"

subsection \<open>The tag parsers\<close>

text \<open>
  A template token carries the text between the tag delimiters. The parsers do not use their
  \<^verbatim>\<open>parser\<close> argument; they take the content-type table instead, which
  \<^verbatim>\<open>_get_content_types\<close> queries.
\<close>

record token =
  contents :: string

text \<open>The messages, each formatted with \<^verbatim>\<open>tokens[0]\<close>.\<close>

definition tag_message :: "string list \<Rightarrow> string \<Rightarrow> string \<Rightarrow> error + string" where
  "tag_message tokens start rest =
     (case getitem tokens 0 of
        Inl e \<Rightarrow> Inl e
      | Inr tag \<Rightarrow> Inr (start @ py_repr tag @ rest))"

text \<open>The message of the check of \<^verbatim>\<open>tokens[1]\<close> in \<^verbatim>\<open>get_xtdcomment_count\<close> (line 42).\<close>

definition second_argument_message :: "string list \<Rightarrow> error + string" where
  "second_argument_message tokens =
     tag_message tokens ''2nd. argument in '' ('' tag must be '' @ quoted ''for'')"

definition get_xtdcomment_count :: "content_type list \<Rightarrow> token \<Rightarrow> error + node" where
  "get_xtdcomment_count registry token =
     (let tokens = py_split (contents token) in
      case getitem tokens 1 of
        Inl e \<Rightarrow> Inl e
      | Inr t1 \<Rightarrow>
          if t1 \<noteq> ''as'' then
            Inl (raise_template_TemplateSyntaxError (second_argument_message tokens))
          else
            (case getitem tokens 2 of
               Inl e \<Rightarrow> Inl e
             | Inr as_varname \<Rightarrow>
                 (case getitem tokens 3 of
                    Inl e \<Rightarrow> Inl e
                  | Inr t3 \<Rightarrow>
                      if t3 \<noteq> ''for'' then
                        Inl (raise_template_TemplateSyntaxError
                               (tag_message tokens ''4th. argument in ''
                                  ('' tag must be '' @ quoted ''for'')))
                      else
                        (case get_content_types registry (drop 4 tokens) of
                           Inl e \<Rightarrow> Inl e
                         | Inr content_types \<Rightarrow>
                             Inr (new_XtdCommentCountNode as_varname content_types)))))"

text \<open>
  The \<^verbatim>\<open>try\<close> block of the two other parsers: \<^verbatim>\<open>count = int(tokens[1])\<close>, where an
  \<^verbatim>\<open>IndexError\<close> of the indexing is not caught and a \<^verbatim>\<open>ValueError\<close> of the conversion
  is answered by the raise statement.
\<close>

definition parse_count :: "string list \<Rightarrow> error + int" where
  "parse_count tokens =
     (case getitem tokens 1 of
        Inl e \<Rightarrow> Inl e
      | Inr t1 \<Rightarrow>
          (case py_int t1 of
             Inl ValueError \<Rightarrow>
               Inl (raise_template_TemplateSyntaxError
                      (tag_message tokens ''Second argument in '' '' tag must be a integer''))
           | Inl e \<Rightarrow> Inl e
           | Inr cnt \<Rightarrow> Inr cnt))"

definition render_last_xtdcomments :: "content_type list \<Rightarrow> token \<Rightarrow> error + node" where
  "render_last_xtdcomments registry token =
     (let tokens = py_split (contents token) in
      case parse_count tokens of
        Inl e \<Rightarrow> Inl e
      | Inr cnt \<Rightarrow>
          (case getitem tokens 2 of
             Inl e \<Rightarrow> Inl e
           | Inr t2 \<Rightarrow>
               if t2 \<noteq> ''for'' then
                 Inl (raise_template_TemplateSyntaxError
                        (tag_message tokens ''Third argument in ''
                           ('' tag must be '' @ quoted ''for'')))
               else
                 (case get_content_types registry (drop 3 tokens) of
                    Inl e \<Rightarrow> Inl e
                  | Inr content_types \<Rightarrow> new_RenderLastXtdCommentsNode cnt content_types)))"

definition get_last_xtdcomments :: "content_type list \<Rightarrow> token \<Rightarrow> error + node" where
  "get_last_xtdcomments registry token =
     (let tokens = py_split (contents token) in
      case parse_count tokens of
        Inl e \<Rightarrow> Inl e
      | Inr cnt \<Rightarrow>
          (case getitem tokens 2 of
             Inl e \<Rightarrow> Inl e
           | Inr t2 \<Rightarrow>
               if t2 \<noteq> ''as'' then
                 Inl (raise_template_TemplateSyntaxError
                        (tag_message tokens ''Third argument in ''
                           ('' tag must be '' @ quoted ''as'')))
               else
                 (case getitem tokens 3 of
                    Inl e \<Rightarrow> Inl e
                  | Inr as_varname \<Rightarrow>
                      (case getitem tokens 4 of
                         Inl e \<Rightarrow> Inl e
                       | Inr t4 \<Rightarrow>
                           if t4 \<noteq> ''for'' then
                             Inl (raise_template_TemplateSyntaxError
                                    (tag_message tokens ''Fifth argument in ''
                                       ('' tag must be '' @ quoted ''for'')))
                           else
                             (case get_content_types registry (drop 5 tokens) of
                                Inl e \<Rightarrow> Inl e
                              | Inr content_types \<Rightarrow>
                                  new_GetLastXtdCommentsNode cnt as_varname content_types)))))"

subsection \<open>Predicates and examples for the properties\<close>

text \<open>
  A token names a content type when it splits at the dot into exactly an app label and a model
  name and the lookup of that pair in the content-type table returns a row.
\<close>

definition names_content_type :: "content_type list \<Rightarrow> string \<Rightarrow> bool" where
  "names_content_type registry token =
     (case py_split_on CHR ''.'' token of
        [app, mdl] \<Rightarrow>
          (case ContentType_objects_get registry app mdl of Inr _ \<Rightarrow> True | Inl _ \<Rightarrow> False)
      | _ \<Rightarrow> False)"

text \<open>A content-type table, a comment table, a loader and a context to run the code on.\<close>

definition blog_story :: content_type where
  "blog_story = \<lparr>app_label = ''blog'', model = ''story''\<rparr>"

definition blog_quote :: content_type where
  "blog_quote = \<lparr>app_label = ''blog'', model = ''quote''\<rparr>"

definition shop_item :: content_type where
  "shop_item = \<lparr>app_label = ''shop'', model = ''item''\<rparr>"

definition demo_registry :: "content_type list" where
  "demo_registry = [blog_story, blog_quote, shop_item]"

definition demo_table :: "xtd_comment list" where
  "demo_table =
     [\<lparr>content_type = blog_story, comment = ''first'', submit_date = 10\<rparr>,
      \<lparr>content_type = shop_item, comment = ''second'', submit_date = 20\<rparr>,
      \<lparr>content_type = blog_quote, comment = ''third'', submit_date = 30\<rparr>,
      \<lparr>content_type = blog_story, comment = ''fourth'', submit_date = 40\<rparr>]"


definition demo_loader :: loader where
  "demo_loader names dictionary ctx =
     (case dictionary ''comment'' of
        Some (PyComment c) \<Rightarrow> Inr (''<p>'' @ comment c @ ''</p>'')
      | _ \<Rightarrow> Inl TemplateDoesNotExist)"

definition demo_context :: Context where
  "demo_context = Context [''user'' \<mapsto> PyStr ''ann''] [[''n'' \<mapsto> PyInt 7]]"

section \<open>Properties\<close>

subsection \<open>Auxiliary facts\<close>

lemma raise_is_NameError:
  "raise_template_TemplateSyntaxError msg = NameError ''template''"
  by (simp add: raise_template_TemplateSyntaxError_def load_global_def module_globals_def)

lemma ContentType_objects_get_fields:
  assumes "ContentType_objects_get registry app mdl = Inr ct"
  shows "app_label ct = app \<and> model ct = mdl \<and> ct \<in> set registry"
proof -
  from assms have "filter (\<lambda>ct. app_label ct = app \<and> model ct = mdl) registry = [ct]"
    by (auto simp: ContentType_objects_get_def split: list.splits)
  then have "ct \<in> set (filter (\<lambda>ct. app_label ct = app \<and> model ct = mdl) registry)"
    by simp
  then show ?thesis by simp
qed

lemma names_content_typeE:
  assumes "names_content_type registry token"
  obtains app mdl ct where "py_split_on CHR ''.'' token = [app, mdl]"
    and "ContentType_objects_get registry app mdl = Inr ct"
  using assms
  by (auto simp: names_content_type_def split: list.splits sum.splits)

lemma loop_step_valid:
  assumes "py_split_on CHR ''.'' token = [app, mdl]"
    and "ContentType_objects_get registry app mdl = Inr ct"
  shows "get_content_types_loop registry acc (token # tokens) =
         get_content_types_loop registry (acc @ [ct]) tokens"
  using assms by simp

lemma loop_step_invalid:
  assumes "\<not> names_content_type registry token"
  shows "\<exists>e. get_content_types_loop registry acc (token # tokens) = Inl e
           \<and> get_content_types_loop registry [] [token] = Inl e"
  using assms
  by (auto simp: names_content_type_def split: list.splits sum.splits error.splits)

lemma loop_all_valid:
  assumes "\<forall>token\<in>set tokens. names_content_type registry token"
  shows "\<exists>cts. get_content_types_loop registry acc tokens = Inr (acc @ cts)
           \<and> length cts = length tokens
           \<and> (\<forall>i<length tokens.
                 py_split_on CHR ''.'' (tokens ! i) = [app_label (cts ! i), model (cts ! i)]
                 \<and> ContentType_objects_get registry (app_label (cts ! i)) (model (cts ! i))
                     = Inr (cts ! i))"
  using assms
proof (induction tokens arbitrary: acc)
  case Nil
  then show ?case by simp
next
  case (Cons token tokens)
  from Cons.prems have "names_content_type registry token" by simp
  then obtain app mdl ct where sp: "py_split_on CHR ''.'' token = [app, mdl]"
    and g: "ContentType_objects_get registry app mdl = Inr ct"
    by (rule names_content_typeE)
  from g have f: "app_label ct = app" "model ct = mdl"
    using ContentType_objects_get_fields by blast+
  from Cons.prems have "\<forall>t\<in>set tokens. names_content_type registry t" by simp
  from Cons.IH[OF this, of "acc @ [ct]"] obtain cts where
    r: "get_content_types_loop registry (acc @ [ct]) tokens = Inr ((acc @ [ct]) @ cts)"
    and l: "length cts = length tokens"
    and p: "\<forall>i<length tokens.
                 py_split_on CHR ''.'' (tokens ! i) = [app_label (cts ! i), model (cts ! i)]
                 \<and> ContentType_objects_get registry (app_label (cts ! i)) (model (cts ! i))
                     = Inr (cts ! i)"
    by blast
  have "get_content_types_loop registry acc (token # tokens) = Inr (acc @ (ct # cts))"
    using loop_step_valid[OF sp g] r by simp
  moreover have "length (ct # cts) = length (token # tokens)" using l by simp
  moreover have "\<forall>i<length (token # tokens).
      py_split_on CHR ''.'' ((token # tokens) ! i)
        = [app_label ((ct # cts) ! i), model ((ct # cts) ! i)]
      \<and> ContentType_objects_get registry (app_label ((ct # cts) ! i)) (model ((ct # cts) ! i))
          = Inr ((ct # cts) ! i)"
  proof (intro allI impI)
    fix i assume "i < length (token # tokens)"
    then show "py_split_on CHR ''.'' ((token # tokens) ! i)
        = [app_label ((ct # cts) ! i), model ((ct # cts) ! i)]
      \<and> ContentType_objects_get registry (app_label ((ct # cts) ! i)) (model ((ct # cts) ! i))
          = Inr ((ct # cts) ! i)"
      using sp g f p by (cases i) auto
  qed
  ultimately show ?case by blast
qed

lemma loop_first_invalid:
  assumes "\<forall>token\<in>set pre. names_content_type registry token"
    and "\<not> names_content_type registry bad"
  shows "\<exists>e. get_content_types_loop registry acc (pre @ bad # rest) = Inl e
           \<and> get_content_types_loop registry [] [bad] = Inl e"
  using assms
proof (induction pre arbitrary: acc)
  case Nil
  then show ?case using loop_step_invalid by simp
next
  case (Cons token pre)
  from Cons.prems have "names_content_type registry token" by simp
  then obtain app mdl ct where sp: "py_split_on CHR ''.'' token = [app, mdl]"
    and g: "ContentType_objects_get registry app mdl = Inr ct"
    by (rule names_content_typeE)
  have "get_content_types_loop registry acc ((token # pre) @ bad # rest)
        = get_content_types_loop registry (acc @ [ct]) (pre @ bad # rest)"
    using loop_step_valid[OF sp g] by simp
  moreover from Cons.prems have "\<forall>t\<in>set pre. names_content_type registry t" by simp
  ultimately show ?case using Cons.IH[of "acc @ [ct]"] Cons.prems(2) by simp
qed

lemma get_content_types_first_invalid:
  assumes "\<forall>token\<in>set pre. names_content_type registry token"
    and "\<not> names_content_type registry bad"
  shows "\<exists>e. get_content_types registry (pre @ bad # rest) = Inl e
           \<and> get_content_types registry [bad] = Inl e"
  unfolding get_content_types_def using loop_first_invalid[OF assms] .

lemma get_content_types_some_invalid:
  assumes "\<exists>token\<in>set tokens. \<not> names_content_type registry token"
  shows "isl (get_content_types registry tokens)"
proof -
  from assms obtain pre bad rest where "tokens = pre @ bad # rest"
    and "\<not> names_content_type registry bad"
    and "\<forall>t\<in>set pre. \<not> \<not> names_content_type registry t"
    using split_list_first_prop[of tokens "\<lambda>t. \<not> names_content_type registry t"] by blast
  then show ?thesis
    using get_content_types_first_invalid[of pre registry bad rest] by auto
qed

lemma get_xtdcomment_count_Inr:
  assumes "get_xtdcomment_count registry token = Inr nd"
  shows "\<exists>cts. 4 \<le> length (py_split (contents token))
           \<and> py_split (contents token) ! 1 = ''as''
           \<and> py_split (contents token) ! 3 = ''for''
           \<and> get_content_types registry (drop 4 (py_split (contents token))) = Inr cts
           \<and> nd = XtdCommentCountNode (py_split (contents token) ! 2) (for_content_types cts)"
  using assms
  by (auto simp: get_xtdcomment_count_def Let_def getitem_def new_XtdCommentCountNode_def
      split: if_splits sum.splits)




lemma get_xtdcomment_count_needs_content_types:
  assumes "isl (get_content_types registry (drop 4 (py_split (contents token))))"
  shows "isl (get_xtdcomment_count registry token)"
  using assms
  by (auto simp: get_xtdcomment_count_def Let_def split: sum.splits)

lemma render_last_xtdcomments_needs_content_types:
  assumes "isl (get_content_types registry (drop 3 (py_split (contents token))))"
  shows "isl (render_last_xtdcomments registry token)"
  using assms
  by (auto simp: render_last_xtdcomments_def Let_def split: sum.splits)

lemma get_last_xtdcomments_needs_content_types:
  assumes "isl (get_content_types registry (drop 5 (py_split (contents token))))"
  shows "isl (get_last_xtdcomments registry token)"
  using assms
  by (auto simp: get_last_xtdcomments_def Let_def split: sum.splits)

subsection \<open>The content types of a token list\<close>

text \<open>
  Claim C10. When every token splits into exactly one app.model pair that names an existing
  content type, \<^verbatim>\<open>_get_content_types\<close> returns a list with exactly one content type per
  token, in the order of the tokens: the content type at position \<open>i\<close> is the row of the
  table that the token at position \<open>i\<close> names.
\<close>

theorem get_content_types_one_per_token:
  assumes "\<forall>token\<in>set tokens. names_content_type registry token"
  shows "\<exists>cts. get_content_types registry tokens = Inr cts
           \<and> length cts = length tokens
           \<and> (\<forall>i<length tokens.
                 py_split_on CHR ''.'' (tokens ! i) = [app_label (cts ! i), model (cts ! i)]
                 \<and> ContentType_objects_get registry (app_label (cts ! i)) (model (cts ! i))
                     = Inr (cts ! i))"
  unfolding get_content_types_def using loop_all_valid[OF assms, of "[]"] by simp

theorem get_content_types_one_per_token_witness:
  "names_content_type demo_registry ''blog.quote''
   \<and> names_content_type demo_registry ''blog.story''
   \<and> (\<exists>cts. get_content_types demo_registry [''blog.quote'', ''blog.story''] = Inr cts
          \<and> length cts = length [''blog.quote'', ''blog.story'']
          \<and> (\<forall>i<length [''blog.quote'', ''blog.story''].
                py_split_on CHR ''.'' ([''blog.quote'', ''blog.story''] ! i)
                  = [app_label (cts ! i), model (cts ! i)]
                \<and> ContentType_objects_get demo_registry (app_label (cts ! i)) (model (cts ! i))
                    = Inr (cts ! i)))
   \<and> get_content_types demo_registry [''blog.quote'', ''blog.story'']
       = Inr [blog_quote, blog_story]"
proof -
  have g: "names_content_type demo_registry ''blog.quote''"
    "names_content_type demo_registry ''blog.story''"
    by code_simp+
  have h: "\<forall>token\<in>set [''blog.quote'', ''blog.story'']. names_content_type demo_registry token"
    using g by simp
  have v: "get_content_types demo_registry [''blog.quote'', ''blog.story'']
       = Inr [blog_quote, blog_story]"
    by code_simp
  show ?thesis
    using get_content_types_one_per_token[OF h] g v by blast
qed

text \<open>
  Claim C7. A tag with at least one invalid content-type token does not parse: the parser
  leaves with an exception and returns no node. \<^verbatim>\<open>_get_content_types\<close> stops at the first
  invalid token: its outcome is the exception of that token alone, whatever was collected
  before it and whatever follows it.
\<close>

theorem invalid_content_type_aborts_parsing:
  "((\<forall>token\<in>set pre. names_content_type registry token) \<and> \<not> names_content_type registry bad
      \<longrightarrow> isl (get_content_types registry (pre @ bad # rest))
          \<and> get_content_types registry (pre @ bad # rest) = get_content_types registry [bad])
   \<and> ((\<exists>t\<in>set (drop 4 (py_split (contents token))). \<not> names_content_type registry t)
      \<longrightarrow> isl (get_xtdcomment_count registry token))
   \<and> ((\<exists>t\<in>set (drop 3 (py_split (contents token))). \<not> names_content_type registry t)
      \<longrightarrow> isl (render_last_xtdcomments registry token))
   \<and> ((\<exists>t\<in>set (drop 5 (py_split (contents token))). \<not> names_content_type registry t)
      \<longrightarrow> isl (get_last_xtdcomments registry token))"
proof (intro conjI impI)
  assume a: "(\<forall>token\<in>set pre. names_content_type registry token)
      \<and> \<not> names_content_type registry bad"
  then obtain e where e: "get_content_types registry (pre @ bad # rest) = Inl e"
    "get_content_types registry [bad] = Inl e"
    using get_content_types_first_invalid[of pre registry bad rest] by blast
  show "isl (get_content_types registry (pre @ bad # rest))" using e by simp
  show "get_content_types registry (pre @ bad # rest) = get_content_types registry [bad]"
    using e by simp
next
  assume "\<exists>t\<in>set (drop 4 (py_split (contents token))). \<not> names_content_type registry t"
  then show "isl (get_xtdcomment_count registry token)"
    by (intro get_xtdcomment_count_needs_content_types get_content_types_some_invalid)
next
  assume "\<exists>t\<in>set (drop 3 (py_split (contents token))). \<not> names_content_type registry t"
  then show "isl (render_last_xtdcomments registry token)"
    by (intro render_last_xtdcomments_needs_content_types get_content_types_some_invalid)
next
  assume "\<exists>t\<in>set (drop 5 (py_split (contents token))). \<not> names_content_type registry t"
  then show "isl (get_last_xtdcomments registry token)"
    by (intro get_last_xtdcomments_needs_content_types get_content_types_some_invalid)
qed

theorem invalid_content_type_aborts_parsing_witness:
  "names_content_type demo_registry ''blog.story''
   \<and> \<not> names_content_type demo_registry ''blog.nothing''
   \<and> isl (get_content_types demo_registry ([''blog.story''] @ ''blog.nothing'' # [''shop.item'']))
   \<and> get_content_types demo_registry ([''blog.story''] @ ''blog.nothing'' # [''shop.item''])
       = get_content_types demo_registry [''blog.nothing'']
   \<and> (\<exists>t\<in>set (drop 4 (py_split (contents
          \<lparr>contents = ''get_xtdcomment_count as n for blog.story blogquote''\<rparr>))).
         \<not> names_content_type demo_registry t)
   \<and> isl (get_xtdcomment_count demo_registry
          \<lparr>contents = ''get_xtdcomment_count as n for blog.story blogquote''\<rparr>)
   \<and> (\<exists>t\<in>set (drop 3 (py_split (contents
          \<lparr>contents = ''render_last_xtdcomments 5 for blog.nothing blog.story''\<rparr>))).
         \<not> names_content_type demo_registry t)
   \<and> isl (render_last_xtdcomments demo_registry
          \<lparr>contents = ''render_last_xtdcomments 5 for blog.nothing blog.story''\<rparr>)
   \<and> (\<exists>t\<in>set (drop 5 (py_split (contents
          \<lparr>contents = ''get_last_xtdcomments 5 as v for blog.story a.b.c''\<rparr>))).
         \<not> names_content_type demo_registry t)
   \<and> isl (get_last_xtdcomments demo_registry
          \<lparr>contents = ''get_last_xtdcomments 5 as v for blog.story a.b.c''\<rparr>)"
proof -
  have h1: "names_content_type demo_registry ''blog.story''"
    by code_simp
  have h2: "\<not> names_content_type demo_registry ''blog.nothing''"
    by code_simp
  have h3: "\<exists>t\<in>set (drop 4 (py_split (contents
          \<lparr>contents = ''get_xtdcomment_count as n for blog.story blogquote''\<rparr>))).
         \<not> names_content_type demo_registry t"
    by code_simp
  have h4: "\<exists>t\<in>set (drop 3 (py_split (contents
          \<lparr>contents = ''render_last_xtdcomments 5 for blog.nothing blog.story''\<rparr>))).
         \<not> names_content_type demo_registry t"
    by code_simp
  have h5: "\<exists>t\<in>set (drop 5 (py_split (contents
          \<lparr>contents = ''get_last_xtdcomments 5 as v for blog.story a.b.c''\<rparr>))).
         \<not> names_content_type demo_registry t"
    by code_simp
  show ?thesis
    using h1 h2 h3 h4 h5
      invalid_content_type_aborts_parsing[of "[''blog.story'']" demo_registry "''blog.nothing''"
        "[''shop.item'']" "\<lparr>contents = ''get_xtdcomment_count as n for blog.story blogquote''\<rparr>"]
      invalid_content_type_aborts_parsing[of "[]" demo_registry "''blog.nothing''" "[]"
        "\<lparr>contents = ''render_last_xtdcomments 5 for blog.nothing blog.story''\<rparr>"]
      invalid_content_type_aborts_parsing[of "[]" demo_registry "''blog.nothing''" "[]"
        "\<lparr>contents = ''get_last_xtdcomments 5 as v for blog.story a.b.c''\<rparr>"]
    by simp
qed

text \<open>
  Claim C3. The claim has \<^verbatim>\<open>_get_content_types\<close> raise the templating layer's syntax error
  for a token that is not an app.model pair or names no existing content type. The code
  reaches its raise statement there, and the statement raises \<^verbatim>\<open>NameError\<close>: it reads the
  name \<^verbatim>\<open>template\<close>, which the module never binds.
\<close>

theorem get_content_types_raises_NameError:
  assumes "\<forall>t\<in>set pre. names_content_type registry t"
    and "(\<forall>app mdl. py_split_on CHR ''.'' bad \<noteq> [app, mdl])
         \<or> (\<exists>app mdl. py_split_on CHR ''.'' bad = [app, mdl]
               \<and> ContentType_objects_get registry app mdl = Inl DoesNotExist)"
  shows "get_content_types registry (pre @ bad # rest) = Inl (NameError ''template'')"
proof -
  from assms(2) have nb: "\<not> names_content_type registry bad"
    by (auto simp: names_content_type_def split: list.splits sum.splits)
  from assms(2) have "get_content_types registry [bad] = Inl (NameError ''template'')"
    by (auto simp: get_content_types_def raise_is_NameError
        split: list.splits sum.splits error.splits)
  then show ?thesis
    using get_content_types_first_invalid[OF assms(1) nb, of rest] by auto
qed

theorem get_content_types_raises_NameError_witness:
  "names_content_type demo_registry ''blog.story''
   \<and> (\<forall>app mdl. py_split_on CHR ''.'' ''blogquote'' \<noteq> [app, mdl])
   \<and> get_content_types demo_registry ([''blog.story''] @ ''blogquote'' # [''shop.item''])
       = Inl (NameError ''template'')
   \<and> py_split_on CHR ''.'' ''blog.nothing'' = [''blog'', ''nothing'']
   \<and> ContentType_objects_get demo_registry ''blog'' ''nothing'' = Inl DoesNotExist
   \<and> get_content_types demo_registry ([''blog.story''] @ ''blog.nothing'' # [''shop.item''])
       = Inl (NameError ''template'')"
proof -
  have h1: "names_content_type demo_registry ''blog.story''"
    by code_simp
  have s1: "py_split_on CHR ''.'' ''blogquote'' = [''blogquote'']"
    by code_simp
  have h2: "\<forall>app mdl. py_split_on CHR ''.'' ''blogquote'' \<noteq> [app, mdl]"
    unfolding s1 by simp
  have h3: "py_split_on CHR ''.'' ''blog.nothing'' = [''blog'', ''nothing'']"
    by code_simp
  have h4: "ContentType_objects_get demo_registry ''blog'' ''nothing'' = Inl DoesNotExist"
    by code_simp
  show ?thesis
    using h1 h2 h3 h4
      get_content_types_raises_NameError[of "[''blog.story'']" demo_registry "''blogquote''"
        "[''shop.item'']"]
      get_content_types_raises_NameError[of "[''blog.story'']" demo_registry "''blog.nothing''"
        "[''shop.item'']"]
    by simp
qed

subsection \<open>Malformed tags\<close>

text \<open>
  Claim C2. The claim has a tag with a wrong keyword token or a count that is no integer raise
  the templating layer's syntax error and nothing else. Each of these checks of the three
  parsers ends in \<^verbatim>\<open>raise template.TemplateSyntaxError(...)\<close>, and the statement raises
  \<^verbatim>\<open>NameError\<close>, since the module does not bind the name \<^verbatim>\<open>template\<close>.
\<close>

theorem wrong_keyword_raises_NameError:
  "(2 \<le> length (py_split (contents token)) \<and> py_split (contents token) ! 1 \<noteq> ''as''
      \<longrightarrow> get_xtdcomment_count registry token = Inl (NameError ''template''))
   \<and> (4 \<le> length (py_split (contents token)) \<and> py_split (contents token) ! 1 = ''as''
        \<and> py_split (contents token) ! 3 \<noteq> ''for''
      \<longrightarrow> get_xtdcomment_count registry token = Inl (NameError ''template''))
   \<and> (2 \<le> length (py_split (contents token))
        \<and> py_int (py_split (contents token) ! 1) = Inl ValueError
      \<longrightarrow> render_last_xtdcomments registry token = Inl (NameError ''template'')
          \<and> get_last_xtdcomments registry token = Inl (NameError ''template''))
   \<and> (3 \<le> length (py_split (contents token))
        \<and> (\<exists>n. py_int (py_split (contents token) ! 1) = Inr n)
        \<and> py_split (contents token) ! 2 \<noteq> ''for''
      \<longrightarrow> render_last_xtdcomments registry token = Inl (NameError ''template''))
   \<and> (3 \<le> length (py_split (contents token))
        \<and> (\<exists>n. py_int (py_split (contents token) ! 1) = Inr n)
        \<and> py_split (contents token) ! 2 \<noteq> ''as''
      \<longrightarrow> get_last_xtdcomments registry token = Inl (NameError ''template''))
   \<and> (5 \<le> length (py_split (contents token))
        \<and> (\<exists>n. py_int (py_split (contents token) ! 1) = Inr n)
        \<and> py_split (contents token) ! 2 = ''as''
        \<and> py_split (contents token) ! 4 \<noteq> ''for''
      \<longrightarrow> get_last_xtdcomments registry token = Inl (NameError ''template''))"
  by (auto simp: get_xtdcomment_count_def render_last_xtdcomments_def get_last_xtdcomments_def
      parse_count_def Let_def getitem_def raise_is_NameError
      split: sum.splits error.splits)

theorem wrong_keyword_raises_NameError_witness:
  "(2 \<le> length (py_split (contents \<lparr>contents = ''get_xtdcomment_count for n for blog.story''\<rparr>)) \<and> py_split (contents \<lparr>contents = ''get_xtdcomment_count for n for blog.story''\<rparr>) ! 1 \<noteq> ''as'')
   \<and> get_xtdcomment_count demo_registry \<lparr>contents = ''get_xtdcomment_count for n for blog.story''\<rparr> = Inl (NameError ''template'')
   \<and> (4 \<le> length (py_split (contents \<lparr>contents = ''get_xtdcomment_count as n in blog.story''\<rparr>)) \<and> py_split (contents \<lparr>contents = ''get_xtdcomment_count as n in blog.story''\<rparr>) ! 1 = ''as'' \<and> py_split (contents \<lparr>contents = ''get_xtdcomment_count as n in blog.story''\<rparr>) ! 3 \<noteq> ''for'')
   \<and> get_xtdcomment_count demo_registry \<lparr>contents = ''get_xtdcomment_count as n in blog.story''\<rparr> = Inl (NameError ''template'')
   \<and> (2 \<le> length (py_split (contents \<lparr>contents = ''render_last_xtdcomments five for blog.story''\<rparr>)) \<and> py_int (py_split (contents \<lparr>contents = ''render_last_xtdcomments five for blog.story''\<rparr>) ! 1) = Inl ValueError)
   \<and> render_last_xtdcomments demo_registry \<lparr>contents = ''render_last_xtdcomments five for blog.story''\<rparr> = Inl (NameError ''template'')
   \<and> (2 \<le> length (py_split (contents \<lparr>contents = ''get_last_xtdcomments 5.0 as v for blog.story''\<rparr>)) \<and> py_int (py_split (contents \<lparr>contents = ''get_last_xtdcomments 5.0 as v for blog.story''\<rparr>) ! 1) = Inl ValueError)
   \<and> get_last_xtdcomments demo_registry \<lparr>contents = ''get_last_xtdcomments 5.0 as v for blog.story''\<rparr> = Inl (NameError ''template'')
   \<and> (3 \<le> length (py_split (contents \<lparr>contents = ''render_last_xtdcomments 5 of blog.story''\<rparr>)) \<and> (\<exists>n. py_int (py_split (contents \<lparr>contents = ''render_last_xtdcomments 5 of blog.story''\<rparr>) ! 1) = Inr n) \<and> py_split (contents \<lparr>contents = ''render_last_xtdcomments 5 of blog.story''\<rparr>) ! 2 \<noteq> ''for'')
   \<and> render_last_xtdcomments demo_registry \<lparr>contents = ''render_last_xtdcomments 5 of blog.story''\<rparr> = Inl (NameError ''template'')
   \<and> (3 \<le> length (py_split (contents \<lparr>contents = ''get_last_xtdcomments 5 in v for blog.story''\<rparr>)) \<and> (\<exists>n. py_int (py_split (contents \<lparr>contents = ''get_last_xtdcomments 5 in v for blog.story''\<rparr>) ! 1) = Inr n) \<and> py_split (contents \<lparr>contents = ''get_last_xtdcomments 5 in v for blog.story''\<rparr>) ! 2 \<noteq> ''as'')
   \<and> get_last_xtdcomments demo_registry \<lparr>contents = ''get_last_xtdcomments 5 in v for blog.story''\<rparr> = Inl (NameError ''template'')
   \<and> (5 \<le> length (py_split (contents \<lparr>contents = ''get_last_xtdcomments 5 as v of blog.story''\<rparr>)) \<and> (\<exists>n. py_int (py_split (contents \<lparr>contents = ''get_last_xtdcomments 5 as v of blog.story''\<rparr>) ! 1) = Inr n) \<and> py_split (contents \<lparr>contents = ''get_last_xtdcomments 5 as v of blog.story''\<rparr>) ! 2 = ''as'' \<and> py_split (contents \<lparr>contents = ''get_last_xtdcomments 5 as v of blog.story''\<rparr>) ! 4 \<noteq> ''for'')
   \<and> get_last_xtdcomments demo_registry \<lparr>contents = ''get_last_xtdcomments 5 as v of blog.story''\<rparr> = Inl (NameError ''template'')"
proof -
  have h1: "2 \<le> length (py_split (contents \<lparr>contents = ''get_xtdcomment_count for n for blog.story''\<rparr>)) \<and> py_split (contents \<lparr>contents = ''get_xtdcomment_count for n for blog.story''\<rparr>) ! 1 \<noteq> ''as''"
    by code_simp
  have c1: "get_xtdcomment_count demo_registry \<lparr>contents = ''get_xtdcomment_count for n for blog.story''\<rparr> = Inl (NameError ''template'')"
    using h1 wrong_keyword_raises_NameError[of "\<lparr>contents = ''get_xtdcomment_count for n for blog.story''\<rparr>" demo_registry] by simp
  have h2: "4 \<le> length (py_split (contents \<lparr>contents = ''get_xtdcomment_count as n in blog.story''\<rparr>)) \<and> py_split (contents \<lparr>contents = ''get_xtdcomment_count as n in blog.story''\<rparr>) ! 1 = ''as'' \<and> py_split (contents \<lparr>contents = ''get_xtdcomment_count as n in blog.story''\<rparr>) ! 3 \<noteq> ''for''"
    by code_simp
  have c2: "get_xtdcomment_count demo_registry \<lparr>contents = ''get_xtdcomment_count as n in blog.story''\<rparr> = Inl (NameError ''template'')"
    using h2 wrong_keyword_raises_NameError[of "\<lparr>contents = ''get_xtdcomment_count as n in blog.story''\<rparr>" demo_registry] by simp
  have h3: "2 \<le> length (py_split (contents \<lparr>contents = ''render_last_xtdcomments five for blog.story''\<rparr>)) \<and> py_int (py_split (contents \<lparr>contents = ''render_last_xtdcomments five for blog.story''\<rparr>) ! 1) = Inl ValueError"
    by code_simp
  have c3: "render_last_xtdcomments demo_registry \<lparr>contents = ''render_last_xtdcomments five for blog.story''\<rparr> = Inl (NameError ''template'')"
    using h3 wrong_keyword_raises_NameError[of "\<lparr>contents = ''render_last_xtdcomments five for blog.story''\<rparr>" demo_registry] by simp
  have h4: "2 \<le> length (py_split (contents \<lparr>contents = ''get_last_xtdcomments 5.0 as v for blog.story''\<rparr>)) \<and> py_int (py_split (contents \<lparr>contents = ''get_last_xtdcomments 5.0 as v for blog.story''\<rparr>) ! 1) = Inl ValueError"
    by code_simp
  have c4: "get_last_xtdcomments demo_registry \<lparr>contents = ''get_last_xtdcomments 5.0 as v for blog.story''\<rparr> = Inl (NameError ''template'')"
    using h4 wrong_keyword_raises_NameError[of "\<lparr>contents = ''get_last_xtdcomments 5.0 as v for blog.story''\<rparr>" demo_registry] by simp
  have i5: "py_int (py_split (contents \<lparr>contents = ''render_last_xtdcomments 5 of blog.story''\<rparr>) ! 1) = Inr 5"
    by code_simp
  have g5: "3 \<le> length (py_split (contents \<lparr>contents = ''render_last_xtdcomments 5 of blog.story''\<rparr>)) \<and> py_split (contents \<lparr>contents = ''render_last_xtdcomments 5 of blog.story''\<rparr>) ! 2 \<noteq> ''for''"
    by code_simp
  have h5: "3 \<le> length (py_split (contents \<lparr>contents = ''render_last_xtdcomments 5 of blog.story''\<rparr>)) \<and> (\<exists>n. py_int (py_split (contents \<lparr>contents = ''render_last_xtdcomments 5 of blog.story''\<rparr>) ! 1) = Inr n) \<and> py_split (contents \<lparr>contents = ''render_last_xtdcomments 5 of blog.story''\<rparr>) ! 2 \<noteq> ''for''"
    using i5 g5 by simp
  have c5: "render_last_xtdcomments demo_registry \<lparr>contents = ''render_last_xtdcomments 5 of blog.story''\<rparr> = Inl (NameError ''template'')"
    using h5 wrong_keyword_raises_NameError[of "\<lparr>contents = ''render_last_xtdcomments 5 of blog.story''\<rparr>" demo_registry] by simp
  have i6: "py_int (py_split (contents \<lparr>contents = ''get_last_xtdcomments 5 in v for blog.story''\<rparr>) ! 1) = Inr 5"
    by code_simp
  have g6: "3 \<le> length (py_split (contents \<lparr>contents = ''get_last_xtdcomments 5 in v for blog.story''\<rparr>)) \<and> py_split (contents \<lparr>contents = ''get_last_xtdcomments 5 in v for blog.story''\<rparr>) ! 2 \<noteq> ''as''"
    by code_simp
  have h6: "3 \<le> length (py_split (contents \<lparr>contents = ''get_last_xtdcomments 5 in v for blog.story''\<rparr>)) \<and> (\<exists>n. py_int (py_split (contents \<lparr>contents = ''get_last_xtdcomments 5 in v for blog.story''\<rparr>) ! 1) = Inr n) \<and> py_split (contents \<lparr>contents = ''get_last_xtdcomments 5 in v for blog.story''\<rparr>) ! 2 \<noteq> ''as''"
    using i6 g6 by simp
  have c6: "get_last_xtdcomments demo_registry \<lparr>contents = ''get_last_xtdcomments 5 in v for blog.story''\<rparr> = Inl (NameError ''template'')"
    using h6 wrong_keyword_raises_NameError[of "\<lparr>contents = ''get_last_xtdcomments 5 in v for blog.story''\<rparr>" demo_registry] by simp
  have i7: "py_int (py_split (contents \<lparr>contents = ''get_last_xtdcomments 5 as v of blog.story''\<rparr>) ! 1) = Inr 5"
    by code_simp
  have g7: "5 \<le> length (py_split (contents \<lparr>contents = ''get_last_xtdcomments 5 as v of blog.story''\<rparr>)) \<and> py_split (contents \<lparr>contents = ''get_last_xtdcomments 5 as v of blog.story''\<rparr>) ! 2 = ''as'' \<and> py_split (contents \<lparr>contents = ''get_last_xtdcomments 5 as v of blog.story''\<rparr>) ! 4 \<noteq> ''for''"
    by code_simp
  have h7: "5 \<le> length (py_split (contents \<lparr>contents = ''get_last_xtdcomments 5 as v of blog.story''\<rparr>)) \<and> (\<exists>n. py_int (py_split (contents \<lparr>contents = ''get_last_xtdcomments 5 as v of blog.story''\<rparr>) ! 1) = Inr n) \<and> py_split (contents \<lparr>contents = ''get_last_xtdcomments 5 as v of blog.story''\<rparr>) ! 2 = ''as'' \<and> py_split (contents \<lparr>contents = ''get_last_xtdcomments 5 as v of blog.story''\<rparr>) ! 4 \<noteq> ''for''"
    using i7 g7 by simp
  have c7: "get_last_xtdcomments demo_registry \<lparr>contents = ''get_last_xtdcomments 5 as v of blog.story''\<rparr> = Inl (NameError ''template'')"
    using h7 wrong_keyword_raises_NameError[of "\<lparr>contents = ''get_last_xtdcomments 5 as v of blog.story''\<rparr>" demo_registry] by simp
  show ?thesis
    using h1 c1 h2 c2 h3 c3 h4 c4 h5 c5 h6 c6 h7 c7 by simp
qed

text \<open>
  Claim C6. The claim has the message of a malformed tag name the argument position and the
  keyword expected there, and the message for a second token of \<^verbatim>\<open>get_xtdcomment_count\<close>
  other than "as" say that the second argument must be "as". The message the code builds
  for that check says "for", whatever the tag name; and the raise statement that would carry
  it raises \<^verbatim>\<open>NameError\<close> first.
\<close>

theorem second_argument_message_expects_for:
  "second_argument_message (tag # rest)
     = Inr (''2nd. argument in '' @ py_repr tag @ '' tag must be '' @ quoted ''for'')
   \<and> second_argument_message
         (py_split (contents \<lparr>contents = ''get_xtdcomment_count with n for blog.story''\<rparr>))
       = Inr (''2nd. argument in '' @ quoted ''get_xtdcomment_count''
                @ '' tag must be '' @ quoted ''for'')
   \<and> get_xtdcomment_count demo_registry
         \<lparr>contents = ''get_xtdcomment_count with n for blog.story''\<rparr>
       = Inl (NameError ''template'')"
proof (intro conjI)
  show "second_argument_message (tag # rest)
     = Inr (''2nd. argument in '' @ py_repr tag @ '' tag must be '' @ quoted ''for'')"
    by (simp add: second_argument_message_def tag_message_def getitem_def)
  show "second_argument_message
         (py_split (contents \<lparr>contents = ''get_xtdcomment_count with n for blog.story''\<rparr>))
       = Inr (''2nd. argument in '' @ quoted ''get_xtdcomment_count''
                @ '' tag must be '' @ quoted ''for'')"
    by code_simp
  show "get_xtdcomment_count demo_registry
         \<lparr>contents = ''get_xtdcomment_count with n for blog.story''\<rparr>
       = Inl (NameError ''template'')"
    by code_simp
qed

subsection \<open>Tags with too few tokens\<close>

text \<open>
  Claim C8, amended. The parsers index the token list without a bounds check. When a token
  that a parser reads is missing and the tokens before it pass the parser's checks, parsing
  ends with \<^verbatim>\<open>IndexError\<close>: this is so for \<^verbatim>\<open>get_xtdcomment_count\<close> with fewer than
  4 tokens, \<^verbatim>\<open>render_last_xtdcomments\<close> with fewer than 3 and \<^verbatim>\<open>get_last_xtdcomments\<close>
  with fewer than 5. A tag that lacks its content types only (4, 3 and 5 tokens, with the
  keywords in place and a count that is not negative) raises nothing: it parses to a node
  over the empty list of content types.
\<close>

theorem missing_token_raises_IndexError:
  "(length (py_split (contents token)) < 4
      \<and> (2 \<le> length (py_split (contents token)) \<longrightarrow> py_split (contents token) ! 1 = ''as'')
      \<longrightarrow> get_xtdcomment_count registry token = Inl IndexError)
   \<and> (length (py_split (contents token)) < 3
      \<and> (2 \<le> length (py_split (contents token))
             \<longrightarrow> (\<exists>n. py_int (py_split (contents token) ! 1) = Inr n))
      \<longrightarrow> render_last_xtdcomments registry token = Inl IndexError)
   \<and> (length (py_split (contents token)) < 5
      \<and> (2 \<le> length (py_split (contents token))
             \<longrightarrow> (\<exists>n. py_int (py_split (contents token) ! 1) = Inr n))
      \<and> (3 \<le> length (py_split (contents token)) \<longrightarrow> py_split (contents token) ! 2 = ''as'')
      \<longrightarrow> get_last_xtdcomments registry token = Inl IndexError)
   \<and> (length (py_split (contents token)) = 4
      \<and> py_split (contents token) ! 1 = ''as'' \<and> py_split (contents token) ! 3 = ''for''
      \<longrightarrow> get_xtdcomment_count registry token
          = Inr (XtdCommentCountNode (py_split (contents token) ! 2) (for_content_types [])))
   \<and> (length (py_split (contents token)) = 3
      \<and> py_int (py_split (contents token) ! 1) = Inr n \<and> 0 \<le> n
      \<and> py_split (contents token) ! 2 = ''for''
      \<longrightarrow> render_last_xtdcomments registry token
          = Inr (RenderLastXtdCommentsNode ((for_content_types [])\<lparr>qs_stop := Some (nat n)\<rparr>)))
   \<and> (length (py_split (contents token)) = 5
      \<and> py_int (py_split (contents token) ! 1) = Inr n \<and> 0 \<le> n
      \<and> py_split (contents token) ! 2 = ''as'' \<and> py_split (contents token) ! 4 = ''for''
      \<longrightarrow> get_last_xtdcomments registry token
          = Inr (GetLastXtdCommentsNode (py_split (contents token) ! 3)
                   ((for_content_types [])\<lparr>qs_stop := Some (nat n)\<rparr>)))"
  by (auto simp: get_xtdcomment_count_def render_last_xtdcomments_def get_last_xtdcomments_def
      parse_count_def Let_def getitem_def get_content_types_def
      new_XtdCommentCountNode_def new_RenderLastXtdCommentsNode_def
      new_GetLastXtdCommentsNode_def new_BaseLastXtdCommentsNode_def qs_slice_to_def
      for_content_types_def
      split: sum.splits error.splits)

theorem missing_token_raises_IndexError_witness:
  "length (py_split (contents \<lparr>contents = ''get_xtdcomment_count as n''\<rparr>)) < 4
   \<and> py_split (contents \<lparr>contents = ''get_xtdcomment_count as n''\<rparr>) ! 1 = ''as''
   \<and> get_xtdcomment_count demo_registry \<lparr>contents = ''get_xtdcomment_count as n''\<rparr> = Inl IndexError
   \<and> length (py_split (contents \<lparr>contents = ''render_last_xtdcomments 5''\<rparr>)) < 3
   \<and> py_int (py_split (contents \<lparr>contents = ''render_last_xtdcomments 5''\<rparr>) ! 1) = Inr 5
   \<and> render_last_xtdcomments demo_registry \<lparr>contents = ''render_last_xtdcomments 5''\<rparr> = Inl IndexError
   \<and> length (py_split (contents \<lparr>contents = ''get_last_xtdcomments 5 as v''\<rparr>)) < 5
   \<and> py_int (py_split (contents \<lparr>contents = ''get_last_xtdcomments 5 as v''\<rparr>) ! 1) = Inr 5
   \<and> py_split (contents \<lparr>contents = ''get_last_xtdcomments 5 as v''\<rparr>) ! 2 = ''as''
   \<and> get_last_xtdcomments demo_registry \<lparr>contents = ''get_last_xtdcomments 5 as v''\<rparr> = Inl IndexError
   \<and> length (py_split (contents \<lparr>contents = ''get_xtdcomment_count as n for''\<rparr>)) = 4
   \<and> py_split (contents \<lparr>contents = ''get_xtdcomment_count as n for''\<rparr>) ! 1 = ''as''
   \<and> py_split (contents \<lparr>contents = ''get_xtdcomment_count as n for''\<rparr>) ! 3 = ''for''
   \<and> py_split (contents \<lparr>contents = ''get_xtdcomment_count as n for''\<rparr>) ! 2 = ''n''
   \<and> get_xtdcomment_count demo_registry \<lparr>contents = ''get_xtdcomment_count as n for''\<rparr> = Inr (XtdCommentCountNode ''n'' (for_content_types []))
   \<and> length (py_split (contents \<lparr>contents = ''render_last_xtdcomments 5 for''\<rparr>)) = 3
   \<and> py_int (py_split (contents \<lparr>contents = ''render_last_xtdcomments 5 for''\<rparr>) ! 1) = Inr 5
   \<and> py_split (contents \<lparr>contents = ''render_last_xtdcomments 5 for''\<rparr>) ! 2 = ''for''
   \<and> render_last_xtdcomments demo_registry \<lparr>contents = ''render_last_xtdcomments 5 for''\<rparr> = Inr (RenderLastXtdCommentsNode ((for_content_types [])\<lparr>qs_stop := Some 5\<rparr>))
   \<and> length (py_split (contents \<lparr>contents = ''get_last_xtdcomments 5 as v for''\<rparr>)) = 5
   \<and> py_int (py_split (contents \<lparr>contents = ''get_last_xtdcomments 5 as v for''\<rparr>) ! 1) = Inr 5
   \<and> py_split (contents \<lparr>contents = ''get_last_xtdcomments 5 as v for''\<rparr>) ! 2 = ''as''
   \<and> py_split (contents \<lparr>contents = ''get_last_xtdcomments 5 as v for''\<rparr>) ! 4 = ''for''
   \<and> py_split (contents \<lparr>contents = ''get_last_xtdcomments 5 as v for''\<rparr>) ! 3 = ''v''
   \<and> get_last_xtdcomments demo_registry \<lparr>contents = ''get_last_xtdcomments 5 as v for''\<rparr> = Inr (GetLastXtdCommentsNode ''v'' ((for_content_types [])\<lparr>qs_stop := Some 5\<rparr>))"
proof -
  have g10: "length (py_split (contents \<lparr>contents = ''get_xtdcomment_count as n''\<rparr>)) < 4"
    by code_simp
  have g11: "py_split (contents \<lparr>contents = ''get_xtdcomment_count as n''\<rparr>) ! 1 = ''as''"
    by code_simp
  have h1: "length (py_split (contents \<lparr>contents = ''get_xtdcomment_count as n''\<rparr>)) < 4 \<and> (2 \<le> length (py_split (contents \<lparr>contents = ''get_xtdcomment_count as n''\<rparr>)) \<longrightarrow> py_split (contents \<lparr>contents = ''get_xtdcomment_count as n''\<rparr>) ! 1 = ''as'')"
    using g10 g11 by simp
  have c1: "get_xtdcomment_count demo_registry \<lparr>contents = ''get_xtdcomment_count as n''\<rparr> = Inl IndexError"
    using h1 missing_token_raises_IndexError[of "\<lparr>contents = ''get_xtdcomment_count as n''\<rparr>" demo_registry 0] g10 g11 by simp
  have g20: "length (py_split (contents \<lparr>contents = ''render_last_xtdcomments 5''\<rparr>)) < 3"
    by code_simp
  have g21: "py_int (py_split (contents \<lparr>contents = ''render_last_xtdcomments 5''\<rparr>) ! 1) = Inr 5"
    by code_simp
  have h2: "length (py_split (contents \<lparr>contents = ''render_last_xtdcomments 5''\<rparr>)) < 3 \<and> (2 \<le> length (py_split (contents \<lparr>contents = ''render_last_xtdcomments 5''\<rparr>)) \<longrightarrow> (\<exists>n. py_int (py_split (contents \<lparr>contents = ''render_last_xtdcomments 5''\<rparr>) ! 1) = Inr n))"
    using g20 g21 by simp
  have c2: "render_last_xtdcomments demo_registry \<lparr>contents = ''render_last_xtdcomments 5''\<rparr> = Inl IndexError"
    using h2 missing_token_raises_IndexError[of "\<lparr>contents = ''render_last_xtdcomments 5''\<rparr>" demo_registry 0] g20 g21 by simp
  have g30: "length (py_split (contents \<lparr>contents = ''get_last_xtdcomments 5 as v''\<rparr>)) < 5"
    by code_simp
  have g31: "py_int (py_split (contents \<lparr>contents = ''get_last_xtdcomments 5 as v''\<rparr>) ! 1) = Inr 5"
    by code_simp
  have g32: "py_split (contents \<lparr>contents = ''get_last_xtdcomments 5 as v''\<rparr>) ! 2 = ''as''"
    by code_simp
  have h3: "length (py_split (contents \<lparr>contents = ''get_last_xtdcomments 5 as v''\<rparr>)) < 5 \<and> (2 \<le> length (py_split (contents \<lparr>contents = ''get_last_xtdcomments 5 as v''\<rparr>)) \<longrightarrow> (\<exists>n. py_int (py_split (contents \<lparr>contents = ''get_last_xtdcomments 5 as v''\<rparr>) ! 1) = Inr n)) \<and> (3 \<le> length (py_split (contents \<lparr>contents = ''get_last_xtdcomments 5 as v''\<rparr>)) \<longrightarrow> py_split (contents \<lparr>contents = ''get_last_xtdcomments 5 as v''\<rparr>) ! 2 = ''as'')"
    using g30 g31 g32 by simp
  have c3: "get_last_xtdcomments demo_registry \<lparr>contents = ''get_last_xtdcomments 5 as v''\<rparr> = Inl IndexError"
    using h3 missing_token_raises_IndexError[of "\<lparr>contents = ''get_last_xtdcomments 5 as v''\<rparr>" demo_registry 0] g30 g31 g32 by simp
  have g40: "length (py_split (contents \<lparr>contents = ''get_xtdcomment_count as n for''\<rparr>)) = 4"
    by code_simp
  have g41: "py_split (contents \<lparr>contents = ''get_xtdcomment_count as n for''\<rparr>) ! 1 = ''as''"
    by code_simp
  have g42: "py_split (contents \<lparr>contents = ''get_xtdcomment_count as n for''\<rparr>) ! 3 = ''for''"
    by code_simp
  have g43: "py_split (contents \<lparr>contents = ''get_xtdcomment_count as n for''\<rparr>) ! 2 = ''n''"
    by code_simp
  have h4: "length (py_split (contents \<lparr>contents = ''get_xtdcomment_count as n for''\<rparr>)) = 4 \<and> py_split (contents \<lparr>contents = ''get_xtdcomment_count as n for''\<rparr>) ! 1 = ''as'' \<and> py_split (contents \<lparr>contents = ''get_xtdcomment_count as n for''\<rparr>) ! 3 = ''for''"
    using g40 g41 g42 g43 by simp
  have c4: "get_xtdcomment_count demo_registry \<lparr>contents = ''get_xtdcomment_count as n for''\<rparr> = Inr (XtdCommentCountNode ''n'' (for_content_types []))"
    using h4 missing_token_raises_IndexError[of "\<lparr>contents = ''get_xtdcomment_count as n for''\<rparr>" demo_registry 0] g40 g41 g42 g43 by simp
  have g50: "length (py_split (contents \<lparr>contents = ''render_last_xtdcomments 5 for''\<rparr>)) = 3"
    by code_simp
  have g51: "py_int (py_split (contents \<lparr>contents = ''render_last_xtdcomments 5 for''\<rparr>) ! 1) = Inr 5"
    by code_simp
  have g52: "py_split (contents \<lparr>contents = ''render_last_xtdcomments 5 for''\<rparr>) ! 2 = ''for''"
    by code_simp
  have h5: "length (py_split (contents \<lparr>contents = ''render_last_xtdcomments 5 for''\<rparr>)) = 3 \<and> py_int (py_split (contents \<lparr>contents = ''render_last_xtdcomments 5 for''\<rparr>) ! 1) = Inr 5 \<and> (0::int) \<le> 5 \<and> py_split (contents \<lparr>contents = ''render_last_xtdcomments 5 for''\<rparr>) ! 2 = ''for''"
    using g50 g51 g52 by simp
  have c5: "render_last_xtdcomments demo_registry \<lparr>contents = ''render_last_xtdcomments 5 for''\<rparr> = Inr (RenderLastXtdCommentsNode ((for_content_types [])\<lparr>qs_stop := Some 5\<rparr>))"
    using h5 missing_token_raises_IndexError[of "\<lparr>contents = ''render_last_xtdcomments 5 for''\<rparr>" demo_registry 5] g50 g51 g52 by simp
  have g60: "length (py_split (contents \<lparr>contents = ''get_last_xtdcomments 5 as v for''\<rparr>)) = 5"
    by code_simp
  have g61: "py_int (py_split (contents \<lparr>contents = ''get_last_xtdcomments 5 as v for''\<rparr>) ! 1) = Inr 5"
    by code_simp
  have g62: "py_split (contents \<lparr>contents = ''get_last_xtdcomments 5 as v for''\<rparr>) ! 2 = ''as''"
    by code_simp
  have g63: "py_split (contents \<lparr>contents = ''get_last_xtdcomments 5 as v for''\<rparr>) ! 4 = ''for''"
    by code_simp
  have g64: "py_split (contents \<lparr>contents = ''get_last_xtdcomments 5 as v for''\<rparr>) ! 3 = ''v''"
    by code_simp
  have h6: "length (py_split (contents \<lparr>contents = ''get_last_xtdcomments 5 as v for''\<rparr>)) = 5 \<and> py_int (py_split (contents \<lparr>contents = ''get_last_xtdcomments 5 as v for''\<rparr>) ! 1) = Inr 5 \<and> (0::int) \<le> 5 \<and> py_split (contents \<lparr>contents = ''get_last_xtdcomments 5 as v for''\<rparr>) ! 2 = ''as'' \<and> py_split (contents \<lparr>contents = ''get_last_xtdcomments 5 as v for''\<rparr>) ! 4 = ''for''"
    using g60 g61 g62 g63 g64 by simp
  have c6: "get_last_xtdcomments demo_registry \<lparr>contents = ''get_last_xtdcomments 5 as v for''\<rparr> = Inr (GetLastXtdCommentsNode ''v'' ((for_content_types [])\<lparr>qs_stop := Some 5\<rparr>))"
    using h6 missing_token_raises_IndexError[of "\<lparr>contents = ''get_last_xtdcomments 5 as v for''\<rparr>" demo_registry 5] g60 g61 g62 g63 g64 by simp
  show ?thesis
    using g10 g11 c1 g20 g21 c2 g30 g31 g32 c3 g40 g41 g42 g43 c4 g50 g51 g52 c5 g60 g61 g62 g63 g64 c6 by simp
qed

text \<open>
  Claim C8 as stated fails: the content types are taken with a slice, which does not raise.
  \<^verbatim>\<open>get_xtdcomment_count\<close> with 4 tokens and \<^verbatim>\<open>get_last_xtdcomments\<close> with 5 tokens, one
  fewer than the syntax asks for, parse to a node over the empty list of content types.
\<close>

theorem short_tag_without_index_error:
  "length (py_split (contents \<lparr>contents = ''get_xtdcomment_count as n for''\<rparr>)) < 5
   \<and> get_xtdcomment_count demo_registry \<lparr>contents = ''get_xtdcomment_count as n for''\<rparr>
       = Inr (XtdCommentCountNode ''n'' \<lparr>qs_content_types = [], qs_stop = None\<rparr>)
   \<and> length (py_split (contents \<lparr>contents = ''get_last_xtdcomments 5 as v for''\<rparr>)) < 6
   \<and> get_last_xtdcomments demo_registry \<lparr>contents = ''get_last_xtdcomments 5 as v for''\<rparr>
       = Inr (GetLastXtdCommentsNode ''v'' \<lparr>qs_content_types = [], qs_stop = Some 5\<rparr>)"
  by code_simp

subsection \<open>Rendering\<close>

lemma lookup_dicts_other:
  "key \<noteq> v \<Longrightarrow> lookup_dicts (d(v \<mapsto> x) # ds) key = lookup_dicts (d # ds) key"
  by simp

lemma Context_setitem_get_same:
  "Context_getitem (Context_setitem ctx v x) v = Some x"
  by (cases ctx) simp

lemma Context_setitem_get_other:
  "key \<noteq> v \<Longrightarrow> Context_getitem (Context_setitem ctx v x) key = Context_getitem ctx key"
  by (cases ctx) simp

lemma Context_setitem_dicts:
  "Context_dicts (Context_setitem ctx v x) = (hd (Context_dicts ctx))(v \<mapsto> x) # tl (Context_dicts ctx)"
  by (cases ctx) simp

text \<open>
  Claim C9. Rendering an \<^verbatim>\<open>XtdCommentCountNode\<close> or a \<^verbatim>\<open>GetLastXtdCommentsNode\<close> returns
  the empty string and changes the context at the node's \<^verbatim>\<open>as_varname\<close> only: every other
  variable reads as before, the innermost dictionary is the same at every other key, and the
  dictionaries below it are untouched. The row cache of the node's queryset is left as it was.
\<close>

theorem render_changes_only_as_varname:
  assumes "nd = XtdCommentCountNode v qs \<or> nd = GetLastXtdCommentsNode v qs"
  shows "\<exists>ctx'. render table render_to_string nd cache ctx = (cache, Inr (ctx', ''''))
           \<and> (\<forall>key. key \<noteq> v \<longrightarrow> Context_getitem ctx' key = Context_getitem ctx key)
           \<and> (\<forall>key. key \<noteq> v \<longrightarrow> hd (Context_dicts ctx') key = hd (Context_dicts ctx) key)
           \<and> tl (Context_dicts ctx') = tl (Context_dicts ctx)
           \<and> Context_getitem ctx' v \<noteq> None"
  using assms
  by (auto simp: Context_setitem_get_other Context_setitem_get_same Context_setitem_dicts)

theorem render_changes_only_as_varname_witness:
  "(XtdCommentCountNode ''n'' (for_content_types [blog_story])
      = XtdCommentCountNode ''n'' (for_content_types [blog_story])
    \<or> XtdCommentCountNode ''n'' (for_content_types [blog_story])
      = GetLastXtdCommentsNode ''n'' (for_content_types [blog_story]))
   \<and> (\<exists>ctx'. render demo_table demo_loader
                 (XtdCommentCountNode ''n'' (for_content_types [blog_story])) None demo_context
               = (None, Inr (ctx', ''''))
          \<and> Context_getitem ctx' ''user'' = Some (PyStr ''ann'')
          \<and> tl (Context_dicts ctx') = [[''n'' \<mapsto> PyInt 7]]
          \<and> Context_getitem ctx' ''n'' \<noteq> None)"
proof -
  have h: "XtdCommentCountNode ''n'' (for_content_types [blog_story])
      = XtdCommentCountNode ''n'' (for_content_types [blog_story])
    \<or> XtdCommentCountNode ''n'' (for_content_types [blog_story])
      = GetLastXtdCommentsNode ''n'' (for_content_types [blog_story])"
    by simp
  have u: "Context_getitem demo_context ''user'' = Some (PyStr ''ann'')"
    by (simp add: demo_context_def)
  have l: "tl (Context_dicts demo_context) = [[''n'' \<mapsto> PyInt 7]]"
    by (simp add: demo_context_def)
  have k: "''user'' \<noteq> ''n''"
    by simp
  from render_changes_only_as_varname[OF h, of demo_table demo_loader None demo_context]
  obtain ctx' where
    r: "render demo_table demo_loader
          (XtdCommentCountNode ''n'' (for_content_types [blog_story])) None demo_context
        = (None, Inr (ctx', ''''))"
    and o: "\<forall>key. key \<noteq> ''n'' \<longrightarrow> Context_getitem ctx' key = Context_getitem demo_context key"
    and t: "tl (Context_dicts ctx') = tl (Context_dicts demo_context)"
    and s: "Context_getitem ctx' ''n'' \<noteq> None"
    by blast
  from o k have "Context_getitem ctx' ''user'' = Context_getitem demo_context ''user''"
    by blast
  with u l r t s h show ?thesis
    by auto
qed

lemma select_rows_for_content_types:
  "select_rows table (for_content_types cts)
     = sort_key (\<lambda>c. - submit_date c) (filter (\<lambda>c. content_type c \<in> set cts) table)"
  by (simp add: select_rows_def for_content_types_def)









text \<open>
  Claim C1. When \<^verbatim>\<open>get_xtdcomment_count\<close> parses a tag, the tokens after "for" resolve to a
  list of content types, and rendering the node returns the empty string and sets the
  variable named after "as" to the number of comments of the table whose content type is among
  those content types. The queryset of the node is counted and never iterated: its row cache
  is empty before the call and after it, so this holds at every rendering.
\<close>

theorem count_tag_stores_number_of_comments:
  assumes "get_xtdcomment_count registry token = Inr nd"
  shows "\<exists>cts ctx'.
           get_content_types registry (drop 4 (py_split (contents token))) = Inr cts
           \<and> render table render_to_string nd None ctx = (None, Inr (ctx', ''''))
           \<and> Context_getitem ctx' (py_split (contents token) ! 2)
               = Some (PyInt (int (length (filter (\<lambda>c. content_type c \<in> set cts) table))))"
proof -
  from get_xtdcomment_count_Inr[OF assms] obtain cts where
    c: "get_content_types registry (drop 4 (py_split (contents token))) = Inr cts"
    and n: "nd = XtdCommentCountNode (py_split (contents token) ! 2) (for_content_types cts)"
    by blast
  have "QuerySet_count table (for_content_types cts) None
          = int (length (filter (\<lambda>c. content_type c \<in> set cts) table))"
    by (simp add: QuerySet_count_def select_rows_for_content_types)
  with c n show ?thesis
    by (simp add: Context_setitem_get_same)
qed

theorem count_tag_stores_number_of_comments_witness:
  "get_xtdcomment_count demo_registry
       \<lparr>contents = ''get_xtdcomment_count as n for blog.story blog.quote''\<rparr>
     = Inr (XtdCommentCountNode ''n'' (for_content_types [blog_story, blog_quote]))
   \<and> (\<exists>ctx'. render demo_table demo_loader
                 (XtdCommentCountNode ''n'' (for_content_types [blog_story, blog_quote]))
                 None demo_context = (None, Inr (ctx', ''''))
          \<and> Context_getitem ctx' ''n'' = Some (PyInt 3))"
proof -
  let ?tok = "\<lparr>contents = ''get_xtdcomment_count as n for blog.story blog.quote''\<rparr>"
  let ?nd = "XtdCommentCountNode ''n'' (for_content_types [blog_story, blog_quote])"
  have p: "get_xtdcomment_count demo_registry ?tok = Inr ?nd"
    by code_simp
  have c: "get_content_types demo_registry (drop 4 (py_split (contents ?tok)))
             = Inr [blog_story, blog_quote]"
    by code_simp
  have v: "py_split (contents ?tok) ! 2 = ''n''"
    by code_simp
  have l: "int (length (filter (\<lambda>c. content_type c \<in> set [blog_story, blog_quote]) demo_table))
             = 3"
    by code_simp
  from count_tag_stores_number_of_comments[OF p, of demo_table demo_loader demo_context]
  obtain cts ctx' where
    "get_content_types demo_registry (drop 4 (py_split (contents ?tok))) = Inr cts"
    and r: "render demo_table demo_loader ?nd None demo_context = (None, Inr (ctx', ''''))"
    and g: "Context_getitem ctx' (py_split (contents ?tok) ! 2)
              = Some (PyInt (int (length (filter (\<lambda>c. content_type c \<in> set cts) demo_table))))"
    by blast
  with c have "cts = [blog_story, blog_quote]"
    by simp
  with g v l have "Context_getitem ctx' ''n'' = Some (PyInt 3)"
    by metis
  with p r show ?thesis
    by blast
qed







end
